theory Spec2Isabelle
  imports Main "HOL-Library.Word" "HOL-Library.Signed_Division"
begin

unbundle bit_operations_syntax

section \<open>Constants of main.c\<close>

definition KBUF_SIZE :: nat where
  "KBUF_SIZE = 4"

definition PWM_PERIOD :: int where
  "PWM_PERIOD = 50000000"

section \<open>The C library functions main.c calls on strings\<close>

text \<open>
  \<open>atoi\<close> and \<open>strtoull\<close> belong to the C library. They are modelled as the library
  documents them: leading white space is skipped, one optional sign is read, then the
  longest run of decimal digits; a string with no digits gives 0. \<open>atoi\<close> is
  \<open>(int) strtol (s, NULL, 10)\<close>: the value saturates at the bounds of \<open>long\<close> (64 bits on
  the target) and is then cut to the 32 bits of \<open>int\<close>. A C \<open>int\<close> is a \<open>32 word\<close>, read
  with \<open>sint\<close>; a \<open>uint64_t\<close> is a \<open>64 word\<close>, read with \<open>unat\<close>.
\<close>

definition isspace :: "char \<Rightarrow> bool" where
  "isspace c \<longleftrightarrow> (of_char c :: nat) = 32 \<or> (9 \<le> (of_char c :: nat) \<and> (of_char c :: nat) \<le> 13)"

definition isdigit :: "char \<Rightarrow> bool" where
  "isdigit c \<longleftrightarrow> 48 \<le> (of_char c :: nat) \<and> (of_char c :: nat) \<le> 57"

fun digits_value :: "nat \<Rightarrow> string \<Rightarrow> nat" where
  "digits_value acc [] = acc"
| "digits_value acc (c # cs) =
     (if isdigit c then digits_value (acc * 10 + (of_char c - 48)) cs else acc)"

definition scan_number :: "string \<Rightarrow> bool \<times> nat" where
  "scan_number s =
     (case dropWhile isspace s of
        [] \<Rightarrow> (False, 0)
      | c # cs \<Rightarrow>
          if c = CHR ''-'' then (True, digits_value 0 cs)
          else if c = CHR ''+'' then (False, digits_value 0 cs)
          else (False, digits_value 0 (c # cs)))"

definition strtol :: "string \<Rightarrow> int" where
  "strtol s =
     (case scan_number s of
        (neg, n) \<Rightarrow> if neg then max (- (2 ^ 63)) (- int n) else min (2 ^ 63 - 1) (int n))"

definition atoi :: "string \<Rightarrow> 32 word" where
  "atoi s = word_of_int (strtol s)"

definition strtoull :: "string \<Rightarrow> 64 word" where
  "strtoull s =
     (case scan_number s of
        (neg, n) \<Rightarrow>
          if n < 2 ^ 64 then (if neg then - word_of_nat n else word_of_nat n) else - 1)"

text \<open>
  \<open>snprintf (value, KBUF_SIZE, "%d", n)\<close> for \<open>n\<close> between 0 and 255: the decimal digits
  of \<open>n\<close>, at most three, so that they and the closing NUL fit the four bytes.
\<close>

definition digit_char :: "nat \<Rightarrow> char" where
  "digit_char d = ''0123456789'' ! d"

fun decimal_digits :: "nat \<Rightarrow> nat \<Rightarrow> string" where
  "decimal_digits 0 n = []"
| "decimal_digits (Suc k) n =
     (if n < 10 then [digit_char n]
      else decimal_digits k (n div 10) @ [digit_char (n mod 10)])"

definition snprintf_d :: "8 word \<Rightarrow> string" where
  "snprintf_d b = decimal_digits (KBUF_SIZE - 1) (unat b)"

section \<open>The fan configuration byte\<close>

text \<open>
  \<open>union fan_config\<close> overlays one byte with two bit-fields. With the layout of the
  compiler the project builds with (GCC, little-endian), and as the comment above the
  union says, \<open>gpio_num\<close> is the lower five bits and \<open>pwm_mode\<close> the three bits above.
  The record holds the two fields at their widths; \<open>bytes\<close> reads the union through its
  member \<open>bytes\<close> (the spec's encode) and \<open>set_bytes\<close> stores through it (the spec's
  decode).
\<close>

record fan_config =
  gpio_num :: "5 word"
  pwm_mode :: "3 word"

definition bytes :: "fan_config \<Rightarrow> 8 word" where
  "bytes c = ucast (gpio_num c) OR push_bit 5 (ucast (pwm_mode c))"

definition set_bytes :: "8 word \<Rightarrow> fan_config" where
  "set_bytes b = \<lparr>gpio_num = ucast b, pwm_mode = ucast (drop_bit 5 b)\<rparr>"

section \<open>What an invocation does\<close>

text \<open>
  An invocation is described by what it prints and by the system calls it makes, in
  order. The answers of the system (whether the device opens, what the driver returns on
  a read, the result of \<open>ioctl\<close>, \<open>write\<close> and \<open>fork\<close>) are inputs of the model, as is the
  indeterminate content of the local variable \<open>config\<close>, which main.c declares without
  initialising it. Output under the \<open>debug\<close> flag is left out of the trace.
\<close>

datatype message =
    Msg_usage
  | Msg_requires_argument char
  | Msg_unknown_option char
  | Msg_open_failed
  | Msg_read_failed
  | Msg_gpio_range
  | Msg_pwm_range
  | Msg_duty_range
  | Msg_ioctl_failed
  | Msg_no_value
  | Msg_invalid_value
  | Msg_fork_failed
  | Msg_started int
  | Msg_not_pwm_pin
  | Msg_snprintf_failed
  | Msg_write_failed
  | Msg_tz_open_failed
  | Msg_tz_read_failed
  | Msg_tz_negative

datatype event =
    Open_dev
  | Read_dev
  | Ioctl_wr_pwm "64 word"
  | Write_dev string
  | Close_dev
  | Fork
  | Report message
  | Setsid
  | Open_tz
  | Rename_process
  | Lseek_tz
  | Read_tz
  | Usleep "32 word"
  | Close_tz

text \<open>
  \<open>Return n\<close>: \<open>main\<close> returns \<open>n\<close>. \<open>Adaptive ms\<close>: the process is the child of the fork
  and goes on as the governor, \<open>adaptive (fd, ms, argv[0])\<close>. \<open>Undefined_behaviour\<close>: the
  invocation has reached an \<open>int\<close> operation whose result does not fit an \<open>int\<close>; nothing
  is said about what it does from there.
\<close>

datatype outcome = Return int | Adaptive "64 word" | Undefined_behaviour

text \<open>What \<open>getopt\<close> hands to the loop, one value per call; \<open>Opt_err c\<close> is the answer
  \<open>'?'\<close> with \<open>optopt = c\<close>.\<close>

datatype getopt_opt =
    Opt_d
  | Opt_h
  | Opt_a string
  | Opt_p string
  | Opt_g string
  | Opt_c string
  | Opt_err char

record opts =
  debug :: bool
  adapt_ms :: "64 word"
  pwm_value :: "string option"
  gpio_value :: "string option"
  duty_cycle :: "string option"

definition no_opts :: opts where
  "no_opts = \<lparr>debug = False, adapt_ms = 0, pwm_value = None, gpio_value = None,
     duty_cycle = None\<rparr>"

fun getopt_loop :: "getopt_opt list \<Rightarrow> opts \<Rightarrow> (outcome \<times> event list) + opts" where
  "getopt_loop [] v = Inr v"
| "getopt_loop (Opt_d # r) v = getopt_loop r (v\<lparr>debug := True\<rparr>)"
| "getopt_loop (Opt_h # r) v = Inl (Return 0, [Report Msg_usage])"
| "getopt_loop (Opt_a s # r) v = getopt_loop r (v\<lparr>adapt_ms := strtoull s\<rparr>)"
| "getopt_loop (Opt_p s # r) v = getopt_loop r (v\<lparr>pwm_value := Some s\<rparr>)"
| "getopt_loop (Opt_g s # r) v = getopt_loop r (v\<lparr>gpio_value := Some s\<rparr>)"
| "getopt_loop (Opt_c s # r) v = getopt_loop r (v\<lparr>duty_cycle := Some s\<rparr>)"
| "getopt_loop (Opt_err c # r) v =
     (if c = CHR ''p'' \<or> c = CHR ''a'' \<or> c = CHR ''c'' \<or> c = CHR ''g''
      then Inl (Return (- 1), [Report (Msg_requires_argument c)])
      else Inl (Return (- 1), [Report (Msg_unknown_option c)]))"

record env =
  open_ok :: bool
  read_res :: "string option"
  config_indeterminate :: fan_config
  ioctl_ok :: bool
  snprintf_ok :: bool
  write_ok :: bool
  fork_pid :: int

text \<open>
  \<open>open_ok\<close>: \<open>open\<close> returned a descriptor. \<open>read_res\<close>: \<open>None\<close> when \<open>read\<close> returned a
  negative value, otherwise the string \<open>atoi\<close> finds in \<open>old_value\<close>. \<open>ioctl_ok\<close>: the
  control call returned 0. \<open>snprintf_ok\<close>, \<open>write_ok\<close>: the call returned no negative
  value. \<open>fork_pid\<close>: what \<open>fork\<close> returned to the process that is followed.
\<close>

text \<open>Lines 110 to 121: the block of option \<open>-g\<close>.\<close>

definition configuring_gpio ::
  "string option \<Rightarrow> fan_config \<Rightarrow> fan_config \<Rightarrow> message + fan_config" where
  "configuring_gpio gv old_config config =
     (case gv of
        None \<Rightarrow> Inr config
      | Some s \<Rightarrow>
          let gpio_v = atoi s in
          if sint gpio_v < 2 \<or> sint gpio_v > 30 then Inl Msg_gpio_range
          else Inr (config\<lparr>pwm_mode := pwm_mode old_config, gpio_num := ucast gpio_v\<rparr>))"

text \<open>Lines 124 to 134: the block of option \<open>-p\<close>.\<close>

definition configuring_pwm ::
  "string option \<Rightarrow> fan_config \<Rightarrow> fan_config \<Rightarrow> message + fan_config" where
  "configuring_pwm pv old_config config =
     (case pv of
        None \<Rightarrow> Inr config
      | Some s \<Rightarrow>
          let pwm_v = atoi s in
          if sint pwm_v < 0 \<or> sint pwm_v > 7 then Inl Msg_pwm_range
          else Inr (config\<lparr>gpio_num := gpio_num old_config, pwm_mode := ucast pwm_v\<rparr>))"

text \<open>
  Line 138: \<open>uint64_t duty_c = (atoi (duty_cycle) * PWM_PERIOD) / 100\<close>. The product and
  the quotient are \<open>int\<close> operations, and an \<open>int\<close> operation has its exact value or none:
  ISO C leaves it undefined when the value does not fit an \<open>int\<close>, it does not wrap. The
  build of the repository (GCC at \<open>-O3\<close>, without \<open>-fwrapv\<close>) relies on this and computes
  the quotient as \<open>atoi (duty_cycle) * 500000\<close>. So \<open>duty_c\<close> is the exact quotient,
  truncated towards zero, where that quotient fits an \<open>int\<close> (the percentages from -4294
  to 4294), converted to \<open>uint64_t\<close>; it has no value where the quotient does not fit.
\<close>

definition duty_c :: "string \<Rightarrow> 64 word option" where
  "duty_c s =
     (let q = (sint (atoi s) * PWM_PERIOD) sdiv 100
      in if - (2 ^ 31) \<le> q \<and> q < 2 ^ 31 then Some (word_of_int q) else None)"

text \<open>Lines 137 to 150: the block of option \<open>-c\<close>, which ends the invocation.\<close>

definition manual_duty_cycle :: "string \<Rightarrow> env \<Rightarrow> outcome \<times> event list" where
  "manual_duty_cycle s e =
     (case duty_c s of
        None \<Rightarrow> (Undefined_behaviour, [])
      | Some d \<Rightarrow>
          if d < 0 \<or> d > word_of_int PWM_PERIOD
          then (Return (- 1), [Report Msg_duty_range, Close_dev])
          else (Return 0,
                Ioctl_wr_pwm d # (if ioctl_ok e then [] else [Report Msg_ioctl_failed])))"

text \<open>
  Lines 153 to 170: the value given without a flag, \<open>argv[optind]\<close> when there is one;
  \<open>strncpy\<close> keeps its first \<open>KBUF_SIZE - 1\<close> characters.
\<close>

definition configuring_both ::
  "opts \<Rightarrow> string option \<Rightarrow> fan_config \<Rightarrow> message + fan_config" where
  "configuring_both v arg config =
     (if gpio_value v = None \<and> pwm_value v = None \<and> adapt_ms v = 0 then
        (case arg of
           None \<Rightarrow> Inl Msg_no_value
         | Some a \<Rightarrow>
             let config' = set_bytes (ucast (atoi (take (KBUF_SIZE - 1) a))) in
             if bytes config' = 0 \<and>
                (case pwm_value v of None \<Rightarrow> True | Some p \<Rightarrow> atoi p = 0)
             then Inl Msg_invalid_value
             else Inr config')
      else Inr config)"

text \<open>The pins of \<open>PWM_GPIOS\<close>.\<close>

definition PWM_GPIOS :: "5 word \<Rightarrow> bool" where
  "PWM_GPIOS g \<longleftrightarrow> g = 12 \<or> g = 13 \<or> g = 18 \<or> g = 19"

text \<open>Lines 194 to 209: the new byte is printed into the buffer and written.\<close>

definition writing_value :: "fan_config \<Rightarrow> env \<Rightarrow> outcome \<times> event list" where
  "writing_value config e =
     (if \<not> snprintf_ok e then (Return (- 1), [Report Msg_snprintf_failed, Close_dev])
      else (Return 0,
            Write_dev (snprintf_d (bytes config)) #
            (if write_ok e then [] else [Report Msg_write_failed]) @ [Close_dev]))"

text \<open>
  Lines 174 to 192: the block of option \<open>-a\<close>. The \<open>default\<close> case of the switch prints
  its message and leaves the switch, so control goes on to the write.
\<close>

definition adaptive_pwm :: "opts \<Rightarrow> fan_config \<Rightarrow> fan_config \<Rightarrow> env \<Rightarrow> outcome \<times> event list" where
  "adaptive_pwm v old_config config e =
     (if adapt_ms v \<noteq> 0 then
        (if PWM_GPIOS (gpio_num old_config) then
           (if fork_pid e < 0 then (Return (- 1), [Fork, Report Msg_fork_failed, Close_dev])
            else if fork_pid e = 0 then (Adaptive (adapt_ms v), [Fork])
            else (Return 0, [Fork, Report (Msg_started (fork_pid e)), Close_dev]))
         else
           (case writing_value config e of
              (r, tr) \<Rightarrow> (r, Report Msg_not_pwm_pin # tr)))
      else writing_value config e)"

text \<open>Lines 93 to 210: \<open>main\<close> after the option loop.\<close>

definition after_getopt :: "opts \<Rightarrow> string option \<Rightarrow> env \<Rightarrow> outcome \<times> event list" where
  "after_getopt v arg e =
     (if \<not> open_ok e then (Return (- 1), [Open_dev, Report Msg_open_failed])
      else case read_res e of
        None \<Rightarrow> (Return (- 1), [Open_dev, Read_dev, Report Msg_read_failed, Close_dev])
      | Some old_value \<Rightarrow>
          let old_config = set_bytes (ucast (atoi old_value)) in
          (case configuring_gpio (gpio_value v) old_config (config_indeterminate e) of
             Inl m \<Rightarrow> (Return (- 1), [Open_dev, Read_dev, Report m, Close_dev])
           | Inr config1 \<Rightarrow>
          (case configuring_pwm (pwm_value v) old_config config1 of
             Inl m \<Rightarrow> (Return (- 1), [Open_dev, Read_dev, Report m, Close_dev])
           | Inr config2 \<Rightarrow>
          (case duty_cycle v of
             Some s \<Rightarrow>
               (case manual_duty_cycle s e of (r, tr) \<Rightarrow> (r, [Open_dev, Read_dev] @ tr))
           | None \<Rightarrow>
          (case configuring_both v arg config2 of
             Inl m \<Rightarrow> (Return (- 1), [Open_dev, Read_dev, Report m, Close_dev])
           | Inr config3 \<Rightarrow>
               (case adaptive_pwm v old_config config3 e of
                  (r, tr) \<Rightarrow> (r, [Open_dev, Read_dev] @ tr)))))))"

text \<open>
  \<open>main\<close>: \<open>os\<close> are the options as \<open>getopt\<close> returns them, \<open>arg\<close> is \<open>argv[optind]\<close> when
  \<open>optind < argc\<close>.
\<close>

definition main :: "getopt_opt list \<Rightarrow> string option \<Rightarrow> env \<Rightarrow> outcome \<times> event list" where
  "main os arg e =
     (case getopt_loop os no_opts of
        Inl r \<Rightarrow> r
      | Inr v \<Rightarrow> after_getopt v arg e)"

section \<open>The governor\<close>

text \<open>
  One \<open>tick\<close> is one turn of the loop of \<open>adaptive\<close>: \<open>tz_res\<close> is what the thermal zone
  file answered (\<open>Tz_buf s\<close>: the string \<open>atoi\<close> finds in \<open>tzbuf\<close>), \<open>tick_ioctl_ok\<close>
  whether the control call returned 0. The loop has no exit of its own, so a run is
  followed over a list of ticks, the answers of the system seen so far: \<open>Running m\<close>
  says that the process is still in the loop after them, with \<open>max_temp = m\<close>.
  \<open>Exit n\<close> is \<open>exit (n)\<close>. The quotient of line 252 has no value when \<open>max_temp\<close> is 0:
  the run ends there, as \<open>Division_by_zero\<close>.
\<close>

datatype tz_result = Lseek_failed | Read_failed | Tz_buf string

record tick =
  tz_res :: tz_result
  tick_ioctl_ok :: bool

datatype status = Exit int | Division_by_zero | Running "64 word"

text \<open>
  Lines 240 to 252, without the output: the sample \<open>curr_temp\<close>, the new \<open>max_temp\<close> and
  \<open>new_dc\<close>, all of them \<open>uint64_t\<close>; the \<open>int\<close> that \<open>atoi\<close> returns is sign-extended.
\<close>

definition curr_temp :: "string \<Rightarrow> 64 word" where
  "curr_temp tzbuf = scast (atoi tzbuf)"

definition adaptive_tick :: "64 word \<Rightarrow> string \<Rightarrow> 64 word \<times> 64 word option" where
  "adaptive_tick max_temp tzbuf =
     (let max_temp' = (if curr_temp tzbuf > max_temp then curr_temp tzbuf else max_temp)
      in (max_temp',
          if max_temp' = 0 then None
          else Some ((curr_temp tzbuf * word_of_int PWM_PERIOD) div max_temp')))"

fun adaptive_loop :: "64 word \<Rightarrow> 64 word \<Rightarrow> tick list \<Rightarrow> status \<times> event list" where
  "adaptive_loop timeout max_temp [] = (Running max_temp, [])"
| "adaptive_loop timeout max_temp (t # ts) =
     (case tz_res t of
        Lseek_failed \<Rightarrow>
          (Exit (- 1), [Lseek_tz, Report Msg_tz_read_failed, Close_dev, Close_tz])
      | Read_failed \<Rightarrow>
          (Exit (- 1), [Lseek_tz, Read_tz, Report Msg_tz_read_failed, Close_dev, Close_tz])
      | Tz_buf tzbuf \<Rightarrow>
          (case adaptive_tick max_temp tzbuf of
             (max_temp', None) \<Rightarrow>
               (Division_by_zero,
                [Lseek_tz, Read_tz] @
                (if curr_temp tzbuf < 0 then [Report Msg_tz_negative] else []))
           | (max_temp', Some new_dc) \<Rightarrow>
               (case adaptive_loop timeout max_temp' ts of
                  (r, tr) \<Rightarrow>
                    (r, [Lseek_tz, Read_tz] @
                        (if curr_temp tzbuf < 0 then [Report Msg_tz_negative] else []) @
                        [Ioctl_wr_pwm new_dc] @
                        (if tick_ioctl_ok t then [] else [Report Msg_ioctl_failed]) @
                        [Usleep (ucast (timeout * 1000))] @ tr))))"

text \<open>Lines 213 to 262: \<open>adaptive\<close>, with \<open>max_temp\<close> starting at 0.\<close>

definition adaptive :: "bool \<Rightarrow> 64 word \<Rightarrow> tick list \<Rightarrow> status \<times> event list" where
  "adaptive tz_open_ok timeout ts =
     (if \<not> tz_open_ok
      then (Exit (- 1), [Setsid, Open_tz, Report Msg_tz_open_failed, Close_dev])
      else case adaptive_loop timeout 0 ts of
             (r, tr) \<Rightarrow> (r, [Setsid, Open_tz, Rename_process] @ tr))"

text \<open>
  A system for the examples: every call succeeds, the driver returns \<open>stored\<close> on the
  read, \<open>config\<close> is what the uninitialised variable happens to hold and \<open>pid\<close> is the
  answer of \<open>fork\<close>.
\<close>

definition answers :: "string \<Rightarrow> fan_config \<Rightarrow> int \<Rightarrow> env" where
  "answers stored config pid =
     \<lparr>open_ok = True, read_res = Some stored, config_indeterminate = config,
      ioctl_ok = True, snprintf_ok = True, write_ok = True, fork_pid = pid\<rparr>"

definition reading :: "string \<Rightarrow> tick" where
  "reading s = \<lparr>tz_res = Tz_buf s, tick_ioctl_ok = True\<rparr>"

section \<open>Values at concrete inputs\<close>

lemmas scan_defs = scan_number_def isspace_def isdigit_def

lemmas main_defs = main_def no_opts_def after_getopt_def configuring_gpio_def
  configuring_pwm_def configuring_both_def adaptive_pwm_def manual_duty_cycle_def
  writing_value_def PWM_GPIOS_def answers_def

lemma atoi_values:
  "atoi ''0'' = 0" "atoi ''5'' = 5" "atoi ''9'' = 9" "atoi ''10'' = 10"
  "atoi ''31'' = 31" "atoi ''37'' = 37" "atoi ''44'' = 44" "atoi ''50'' = 50"
  "atoi ''100'' = 100" "atoi ''101'' = 101" "atoi ''-1'' = - 1"
  "atoi ''8590'' = 8590"
  "atoi ''45000'' = 45000" "atoi ''47000'' = 47000" "atoi ''-1000'' = - 1000"
  "atoi ''n/a'' = 0"
  by (simp_all add: atoi_def strtol_def scan_defs)

lemma strtoull_values: "strtoull ''1000'' = 1000" "strtoull ''500'' = 500"
  by (simp_all add: strtoull_def scan_defs)

lemma duty_c_values:
  "duty_c ''0'' = Some 0" "duty_c ''10'' = Some 5000000"
  "duty_c ''50'' = Some 25000000"
  "duty_c ''100'' = Some 50000000" "duty_c ''101'' = Some 50500000"
  "duty_c ''-1'' = Some 18446744073709051616"
  "duty_c ''8590'' = None"
  by (simp_all add: duty_c_def atoi_values PWM_PERIOD_def signed_divide_int_def)

lemma snprintf_d_values: "snprintf_d 171 = ''171''" "snprintf_d 0 = ''0''"
  by (simp_all add: snprintf_d_def KBUF_SIZE_def numeral_3_eq_3 digit_char_def)

lemma set_bytes_values:
  "set_bytes 5 = \<lparr>gpio_num = 5, pwm_mode = 0\<rparr>"
  "set_bytes 37 = \<lparr>gpio_num = 5, pwm_mode = 1\<rparr>"
  "set_bytes 44 = \<lparr>gpio_num = 12, pwm_mode = 1\<rparr>"
  by (simp_all add: set_bytes_def)

lemma bytes_values:
  "bytes \<lparr>gpio_num = 11, pwm_mode = 5\<rparr> = 171"
  "bytes \<lparr>gpio_num = 0, pwm_mode = 0\<rparr> = 0"
  by (simp_all add: bytes_def)

lemma curr_temp_values:
  "curr_temp ''0'' = 0" "curr_temp ''n/a'' = 0"
  "curr_temp ''45000'' = 45000" "curr_temp ''47000'' = 47000"
  "curr_temp ''-1000'' = 18446744073709550616"
  by (simp_all add: curr_temp_def atoi_values)

lemma adaptive_tick_values:
  "adaptive_tick 0 ''0'' = (0, None)"
  "adaptive_tick 0 ''n/a'' = (0, None)"
  "adaptive_tick 0 ''45000'' = (45000, Some 50000000)"
  "adaptive_tick 45000 ''45000'' = (45000, Some 50000000)"
  "adaptive_tick 45000 ''47000'' = (47000, Some 50000000)"
  "adaptive_tick 0 ''-1000'' = (18446744073709550616, Some 0)"
  by (simp_all add: adaptive_tick_def curr_temp_values PWM_PERIOD_def)

section \<open>Properties of the configuration byte\<close>

text \<open>
  C7. For every byte \<open>b\<close>, storing \<open>b\<close> through the union member \<open>bytes\<close> and reading the
  member back gives \<open>b\<close> again: encode (decode b) = b, where decoding takes \<open>gpio_num\<close>
  from the low five bits and \<open>pwm_mode\<close> from the next three.
\<close>

theorem bytes_set_bytes: "bytes (set_bytes b) = b"
  by (rule bit_word_eqI) (auto simp: bytes_def set_bytes_def bit_simps)

lemma uint_eq_sint:
  fixes w :: "32 word"
  assumes "0 \<le> sint w"
  shows "uint w = sint w"
proof -
  have "sint w < 2 ^ LENGTH(32)" using sint_lt [of w] by simp
  moreover have "word_of_int (sint w) = w" by simp
  ultimately show ?thesis using assms by (intro word_of_int_inverse) simp_all
qed

lemma uint_ucast_gpio:
  fixes w :: "32 word"
  assumes "0 \<le> sint w" and "sint w < 32"
  shows "uint (ucast w :: 5 word) = sint w"
proof -
  have "uint (ucast w :: 5 word) = take_bit 5 (uint w)"
    by (simp add: unsigned_ucast_eq)
  also have "\<dots> = uint w"
    using assms uint_eq_sint [OF assms(1)] by (simp add: take_bit_int_eq_self)
  finally show ?thesis using uint_eq_sint [OF assms(1)] by simp
qed

lemma uint_ucast_pwm:
  fixes w :: "32 word"
  assumes "0 \<le> sint w" and "sint w < 8"
  shows "uint (ucast w :: 3 word) = sint w"
proof -
  have "uint (ucast w :: 3 word) = take_bit 3 (uint w)"
    by (simp add: unsigned_ucast_eq)
  also have "\<dots> = uint w"
    using assms uint_eq_sint [OF assms(1)] by (simp add: take_bit_int_eq_self)
  finally show ?thesis using uint_eq_sint [OF assms(1)] by simp
qed

text \<open>
  C8. A partial update keeps the field it does not set. For every configuration
  \<open>old_config\<close> read from the driver and whatever \<open>config\<close> held before: with a pin \<open>g\<close>
  from 2 to 30 the block of \<open>-g\<close> succeeds, the new \<open>pwm_mode\<close> is the one read and the new
  \<open>gpio_num\<close> is the pin asked for; with a mode \<open>p\<close> from 0 to 7 the block of \<open>-p\<close>
  succeeds, the new \<open>gpio_num\<close> is the one read and the new \<open>pwm_mode\<close> is the mode asked
  for. Neither block sets the other field to zero.
\<close>

theorem partial_update_preserves:
  "(2 \<le> sint (atoi g) \<and> sint (atoi g) \<le> 30 \<longrightarrow>
      (\<exists>c. configuring_gpio (Some g) old_config config = Inr c \<and>
           pwm_mode c = pwm_mode old_config \<and> uint (gpio_num c) = sint (atoi g))) \<and>
   (0 \<le> sint (atoi p) \<and> sint (atoi p) \<le> 7 \<longrightarrow>
      (\<exists>c. configuring_pwm (Some p) old_config config = Inr c \<and>
           gpio_num c = gpio_num old_config \<and> uint (pwm_mode c) = sint (atoi p)))"
  by (simp add: configuring_gpio_def configuring_pwm_def Let_def uint_ucast_gpio
      uint_ucast_pwm)

theorem partial_update_preserves_witness:
  "2 \<le> sint (atoi ''10'') \<and> sint (atoi ''10'') \<le> 30 \<and>
   0 \<le> sint (atoi ''5'') \<and> sint (atoi ''5'') \<le> 7 \<and>
   configuring_gpio (Some ''10'') \<lparr>gpio_num = 12, pwm_mode = 1\<rparr>
     \<lparr>gpio_num = 0, pwm_mode = 0\<rparr> = Inr \<lparr>gpio_num = 10, pwm_mode = 1\<rparr> \<and>
   configuring_pwm (Some ''5'') \<lparr>gpio_num = 12, pwm_mode = 1\<rparr>
     \<lparr>gpio_num = 0, pwm_mode = 0\<rparr> = Inr \<lparr>gpio_num = 12, pwm_mode = 5\<rparr>"
  using partial_update_preserves [of "''10''" "\<lparr>gpio_num = 12, pwm_mode = 1\<rparr>"
      "\<lparr>gpio_num = 0, pwm_mode = 0\<rparr>" "''5''"]
  by (simp add: configuring_gpio_def configuring_pwm_def atoi_values)

section \<open>Invocations\<close>

lemma configuring_gpio_Inl:
  "configuring_gpio gv old_config config = Inl m \<Longrightarrow> m = Msg_gpio_range"
  by (simp add: configuring_gpio_def Let_def split: option.splits if_splits)

lemma configuring_pwm_Inl:
  "configuring_pwm pv old_config config = Inl m \<Longrightarrow> m = Msg_pwm_range"
  by (simp add: configuring_pwm_def Let_def split: option.splits if_splits)

lemma configuring_gpio_out_of_range:
  "sint (atoi s) < 2 \<or> sint (atoi s) > 30 \<Longrightarrow>
   configuring_gpio (Some s) old_config config = Inl Msg_gpio_range"
  by (simp add: configuring_gpio_def Let_def)

lemma configuring_pwm_out_of_range:
  "sint (atoi s) < 0 \<or> sint (atoi s) > 7 \<Longrightarrow>
   configuring_pwm (Some s) old_config config = Inl Msg_pwm_range"
  by (simp add: configuring_pwm_def Let_def)

lemma after_getopt_gpio_Inl:
  assumes "open_ok e" and "read_res e = Some old_value"
    and "configuring_gpio (gpio_value v) (set_bytes (ucast (atoi old_value)))
           (config_indeterminate e) = Inl m"
  shows "after_getopt v arg e = (Return (- 1), [Open_dev, Read_dev, Report m, Close_dev])"
  using assms by (simp add: after_getopt_def)

lemma after_getopt_pwm_Inl:
  assumes "open_ok e" and "read_res e = Some old_value"
    and "configuring_gpio (gpio_value v) (set_bytes (ucast (atoi old_value)))
           (config_indeterminate e) = Inr config1"
    and "configuring_pwm (pwm_value v) (set_bytes (ucast (atoi old_value))) config1 = Inl m"
  shows "after_getopt v arg e = (Return (- 1), [Open_dev, Read_dev, Report m, Close_dev])"
  using assms by (simp add: after_getopt_def)

lemma after_getopt_duty_cycle:
  assumes "open_ok e" and "read_res e = Some old_value"
    and "configuring_gpio (gpio_value v) (set_bytes (ucast (atoi old_value)))
           (config_indeterminate e) = Inr config1"
    and "configuring_pwm (pwm_value v) (set_bytes (ucast (atoi old_value))) config1 =
           Inr config2"
    and "duty_cycle v = Some s"
  shows "after_getopt v arg e =
           (fst (manual_duty_cycle s e), [Open_dev, Read_dev] @ snd (manual_duty_cycle s e))"
  using assms by (simp add: after_getopt_def split: prod.splits)

text \<open>
  Where the quotient of line 138 fits an \<open>int\<close> it is the percentage times 500000. As a
  \<open>uint64_t\<close> it exceeds \<open>PWM_PERIOD\<close> exactly when the percentage is negative or above
  100.
\<close>

lemma quotient_exact: "(p * PWM_PERIOD) sdiv 100 = p * 500000"
proof -
  have "\<bar>p\<bar> * 50000000 div 100 = \<bar>p\<bar> * 500000" by simp
  then have "(p * 50000000) sdiv 100 = sgn p * (\<bar>p\<bar> * 500000)"
    by (simp add: signed_divide_int_def sgn_mult abs_mult)
  also have "\<dots> = p * 500000"
    by (simp add: mult_sgn_abs flip: mult.assoc)
  finally show ?thesis by (simp add: PWM_PERIOD_def)
qed

lemma duty_c_fits:
  assumes "- 4294 \<le> sint (atoi s)" and "sint (atoi s) \<le> 4294"
  shows "duty_c s = Some (word_of_int (sint (atoi s) * 500000))"
  using assms by (simp add: duty_c_def quotient_exact)

lemma duty_c_overflows:
  assumes "sint (atoi s) < - 4294 \<or> 4294 < sint (atoi s)"
  shows "duty_c s = None"
  using assms by (auto simp: duty_c_def quotient_exact)

lemma uint64_greater_PWM_PERIOD:
  assumes "- (2 ^ 31) \<le> k" and "k < 2 ^ 31"
  shows "(word_of_int k :: 64 word) > word_of_int PWM_PERIOD \<longleftrightarrow> k < 0 \<or> PWM_PERIOD < k"
proof (cases "k < 0")
  case True
  have "(word_of_int (k + 2 ^ 64) :: 64 word) = word_of_int k"
    by simp
  moreover have "0 \<le> k + 2 ^ 64" and "k + 2 ^ 64 < 2 ^ LENGTH(64)"
    using True assms by simp_all
  ultimately have "uint (word_of_int k :: 64 word) = k + 2 ^ 64"
    by (rule word_of_int_inverse)
  with True assms show ?thesis
    by (simp add: word_less_def PWM_PERIOD_def)
next
  case False
  then have "uint (word_of_int k :: 64 word) = k"
    using assms by (intro word_of_int_inverse) simp_all
  with False show ?thesis
    by (simp add: word_less_def PWM_PERIOD_def)
qed


lemma manual_duty_cycle_accepts:
  assumes "0 \<le> sint (atoi s)" and "sint (atoi s) \<le> 100"
  shows "manual_duty_cycle s e =
           (Return 0,
            Ioctl_wr_pwm (word_of_int (sint (atoi s) * PWM_PERIOD div 100)) #
            (if ioctl_ok e then [] else [Report Msg_ioctl_failed]))"
proof -
  let ?k = "sint (atoi s) * 500000"
  have d: "duty_c s = Some (word_of_int ?k)"
    using assms by (intro duty_c_fits) simp_all
  have "\<not> (word_of_int ?k :: 64 word) > word_of_int PWM_PERIOD"
    using assms by (subst uint64_greater_PWM_PERIOD) (simp_all add: PWM_PERIOD_def)
  moreover have "sint (atoi s) * PWM_PERIOD div 100 = ?k"
    by (simp add: PWM_PERIOD_def)
  ultimately show ?thesis
    by (simp add: manual_duty_cycle_def d)
qed

lemma manual_duty_cycle_rejects:
  assumes "- 4294 \<le> sint (atoi s)" and "sint (atoi s) \<le> 4294"
    and "sint (atoi s) < 0 \<or> 100 < sint (atoi s)"
  shows "manual_duty_cycle s e = (Return (- 1), [Report Msg_duty_range, Close_dev])"
proof -
  let ?k = "sint (atoi s) * 500000"
  have d: "duty_c s = Some (word_of_int ?k)"
    using assms by (intro duty_c_fits) simp_all
  have "(word_of_int ?k :: 64 word) > word_of_int PWM_PERIOD"
    using assms by (subst uint64_greater_PWM_PERIOD) (auto simp: PWM_PERIOD_def)
  then show ?thesis
    by (simp add: manual_duty_cycle_def d)
qed

lemma main_Opt_c:
  assumes "open_ok e" and "read_res e = Some old_value"
  shows "main [Opt_c s] arg e =
           (fst (manual_duty_cycle s e), [Open_dev, Read_dev] @ snd (manual_duty_cycle s e))"
  using assms
  by (simp add: main_def no_opts_def after_getopt_def configuring_gpio_def
      configuring_pwm_def split: prod.splits)

text \<open>
  C1. On the duty-cycle path a percentage \<open>p\<close> from 0 to 100 is accepted and the value
  written by the control call is \<open>p * PWM_PERIOD / 100\<close>; the percentages -1 and 101 are
  rejected with the range message and status -1; 0 is written as 0, 100 as
  \<open>PWM_PERIOD\<close> and 50 as 25000000.
\<close>

theorem duty_cycle_percentage:
  assumes dev: "open_ok e" "read_res e = Some old_value"
  shows "(0 \<le> sint (atoi s) \<and> sint (atoi s) \<le> 100 \<longrightarrow>
            main [Opt_c s] arg e =
              (Return 0,
               [Open_dev, Read_dev,
                Ioctl_wr_pwm (word_of_int (sint (atoi s) * PWM_PERIOD div 100))] @
               (if ioctl_ok e then [] else [Report Msg_ioctl_failed]))) \<and>
         (sint (atoi r) = - 1 \<or> sint (atoi r) = 101 \<longrightarrow>
            main [Opt_c r] arg e =
              (Return (- 1), [Open_dev, Read_dev, Report Msg_duty_range, Close_dev])) \<and>
         main [Opt_c ''0''] arg e =
           (Return 0, [Open_dev, Read_dev, Ioctl_wr_pwm 0] @
            (if ioctl_ok e then [] else [Report Msg_ioctl_failed])) \<and>
         main [Opt_c ''100''] arg e =
           (Return 0, [Open_dev, Read_dev, Ioctl_wr_pwm (word_of_int PWM_PERIOD)] @
            (if ioctl_ok e then [] else [Report Msg_ioctl_failed])) \<and>
         main [Opt_c ''50''] arg e =
           (Return 0, [Open_dev, Read_dev, Ioctl_wr_pwm 25000000] @
            (if ioctl_ok e then [] else [Report Msg_ioctl_failed]))"
proof -
  have acc: "main [Opt_c s] arg e =
      (Return 0,
       [Open_dev, Read_dev, Ioctl_wr_pwm (word_of_int (sint (atoi s) * PWM_PERIOD div 100))] @
       (if ioctl_ok e then [] else [Report Msg_ioctl_failed]))"
    if "0 \<le> sint (atoi s)" "sint (atoi s) \<le> 100" for s
    using that by (simp add: main_Opt_c [OF dev] manual_duty_cycle_accepts)
  have rej: "main [Opt_c r] arg e =
      (Return (- 1), [Open_dev, Read_dev, Report Msg_duty_range, Close_dev])"
    if "sint (atoi r) = - 1 \<or> sint (atoi r) = 101"
  proof -
    have "manual_duty_cycle r e = (Return (- 1), [Report Msg_duty_range, Close_dev])"
      using that by (intro manual_duty_cycle_rejects) auto
    then show ?thesis by (simp add: main_Opt_c [OF dev])
  qed
  have "main [Opt_c ''0''] arg e =
      (Return 0, [Open_dev, Read_dev, Ioctl_wr_pwm 0] @
       (if ioctl_ok e then [] else [Report Msg_ioctl_failed]))"
    using acc [of "''0''"] by (simp add: atoi_values)
  moreover have "main [Opt_c ''100''] arg e =
      (Return 0, [Open_dev, Read_dev, Ioctl_wr_pwm 50000000] @
       (if ioctl_ok e then [] else [Report Msg_ioctl_failed]))"
    using acc [of "''100''"] by (simp add: atoi_values PWM_PERIOD_def)
  moreover have "main [Opt_c ''50''] arg e =
      (Return 0, [Open_dev, Read_dev, Ioctl_wr_pwm 25000000] @
       (if ioctl_ok e then [] else [Report Msg_ioctl_failed]))"
    using acc [of "''50''"] by (simp add: atoi_values PWM_PERIOD_def)
  ultimately show ?thesis
    using acc rej by (simp add: PWM_PERIOD_def)
qed

theorem duty_cycle_percentage_witness:
  "open_ok (answers ''44'' \<lparr>gpio_num = 0, pwm_mode = 0\<rparr> 1) \<and>
   read_res (answers ''44'' \<lparr>gpio_num = 0, pwm_mode = 0\<rparr> 1) = Some ''44'' \<and>
   0 \<le> sint (atoi ''50'') \<and> sint (atoi ''50'') \<le> 100 \<and> sint (atoi ''101'') = 101 \<and>
   main [Opt_c ''50''] None (answers ''44'' \<lparr>gpio_num = 0, pwm_mode = 0\<rparr> 1) =
     (Return 0, [Open_dev, Read_dev, Ioctl_wr_pwm 25000000]) \<and>
   main [Opt_c ''101''] None (answers ''44'' \<lparr>gpio_num = 0, pwm_mode = 0\<rparr> 1) =
     (Return (- 1), [Open_dev, Read_dev, Report Msg_duty_range, Close_dev])"
proof -
  let ?e = "answers ''44'' \<lparr>gpio_num = 0, pwm_mode = 0\<rparr> 1"
  have dev: "open_ok ?e" "read_res ?e = Some ''44''" by (simp_all add: answers_def)
  from duty_cycle_percentage [OF dev, of "''50''" None "''101''"] dev
  show ?thesis
    by (simp add: atoi_values PWM_PERIOD_def answers_def)
qed


text \<open>
  C2. The claim: a governor start on a stored pin that cannot do PWM fails, leaves the
  stored byte alone and ends with a status other than 0. In main.c the \<open>default\<close> case
  only prints: with option \<open>-a 1000\<close> and the stored byte 5 (pin 5), nothing is forked,
  but the uninitialised \<open>config\<close> (here the byte 171) is written to the driver and
  \<open>main\<close> returns 0.
\<close>

theorem not_pwm_pin_falls_through:
  "main [Opt_a ''1000''] None (answers ''5'' \<lparr>gpio_num = 11, pwm_mode = 5\<rparr> 1) =
     (Return 0,
      [Open_dev, Read_dev, Report Msg_not_pwm_pin, Write_dev ''171'', Close_dev])"
  by (simp add: main_defs atoi_values strtoull_values set_bytes_values bytes_values
      snprintf_d_values)

text \<open>
  C3, as the spec states it: a value out of range is rejected before the device is
  opened or read, whatever the value. It is not: with option \<open>-g 31\<close> the device is
  opened and read, and only then the range message is printed. And a percentage such as
  8590, whose quotient 4295000000 does not fit an \<open>int\<close>, is past what line 138 defines:
  no rejection can be stated for it.
\<close>

theorem gpio_rejected_after_device_io:
  "main [Opt_g ''31''] None (answers ''44'' \<lparr>gpio_num = 0, pwm_mode = 0\<rparr> 1) =
     (Return (- 1), [Open_dev, Read_dev, Report Msg_gpio_range, Close_dev]) \<and>
   sint (atoi ''8590'') * PWM_PERIOD sdiv 100 = 4295000000 \<and>
   (2 :: int) ^ 31 - 1 < 4295000000 \<and>
   main [Opt_c ''8590''] None (answers ''44'' \<lparr>gpio_num = 0, pwm_mode = 0\<rparr> 1) =
     (Undefined_behaviour, [Open_dev, Read_dev])"
  by (simp add: main_defs atoi_values duty_c_values set_bytes_values PWM_PERIOD_def
      signed_divide_int_def)

text \<open>
  C3, amended. On a device that opens and answers the read: when the pin given with
  \<open>-g\<close> is outside 2 to 30, or the mode given with \<open>-p\<close> is outside 0 to 7, or the
  percentage given with \<open>-c\<close> is outside 0 to 100 (and between -4294 and 4294, where line
  138 has a value), the invocation prints the range message and returns -1, and what it
  did on the device is the open, the read and the close: the rejection comes after the
  open and the read and before any write or control call.
\<close>

theorem rejected_after_open_and_read:
  assumes opts: "getopt_loop os no_opts = Inr v"
    and dev: "open_ok e" "read_res e = Some old_value"
    and bad:
      "(\<exists>s. gpio_value v = Some s \<and> (sint (atoi s) < 2 \<or> sint (atoi s) > 30)) \<or>
       (\<exists>s. pwm_value v = Some s \<and> (sint (atoi s) < 0 \<or> sint (atoi s) > 7)) \<or>
       (\<exists>s. duty_cycle v = Some s \<and> (sint (atoi s) < 0 \<or> sint (atoi s) > 100) \<and>
            - 4294 \<le> sint (atoi s) \<and> sint (atoi s) \<le> 4294)"
  shows "\<exists>m. (m = Msg_gpio_range \<or> m = Msg_pwm_range \<or> m = Msg_duty_range) \<and>
           main os arg e = (Return (- 1), [Open_dev, Read_dev, Report m, Close_dev])"
proof -
  let ?old = "set_bytes (ucast (atoi old_value))"
  have main: "main os arg e = after_getopt v arg e"
    using opts by (simp add: main_def)
  show ?thesis
  proof (cases "configuring_gpio (gpio_value v) ?old (config_indeterminate e)")
    case (Inl m)
    then have "m = Msg_gpio_range" by (rule configuring_gpio_Inl)
    with after_getopt_gpio_Inl [OF dev Inl] main show ?thesis by simp
  next
    case gpio: (Inr config1)
    show ?thesis
    proof (cases "configuring_pwm (pwm_value v) ?old config1")
      case (Inl m)
      then have "m = Msg_pwm_range" by (rule configuring_pwm_Inl)
      with after_getopt_pwm_Inl [OF dev gpio Inl] main show ?thesis by simp
    next
      case pwm: (Inr config2)
      from gpio
      have "\<not> (\<exists>s. gpio_value v = Some s \<and> (sint (atoi s) < 2 \<or> sint (atoi s) > 30))"
        by (auto simp: configuring_gpio_out_of_range)
      moreover from pwm
      have "\<not> (\<exists>s. pwm_value v = Some s \<and> (sint (atoi s) < 0 \<or> sint (atoi s) > 7))"
        by (auto simp: configuring_pwm_out_of_range)
      ultimately obtain s where s: "duty_cycle v = Some s"
        "sint (atoi s) < 0 \<or> 100 < sint (atoi s)"
        "- 4294 \<le> sint (atoi s)" "sint (atoi s) \<le> 4294"
        using bad by blast
      from after_getopt_duty_cycle [OF dev gpio pwm s(1)]
        manual_duty_cycle_rejects [OF s(3) s(4) s(2)] main
      show ?thesis by simp
    qed
  qed
qed

theorem rejected_after_open_and_read_witness:
  "getopt_loop [Opt_c ''101''] no_opts = Inr (no_opts\<lparr>duty_cycle := Some ''101''\<rparr>) \<and>
   open_ok (answers ''44'' \<lparr>gpio_num = 0, pwm_mode = 0\<rparr> 1) \<and>
   read_res (answers ''44'' \<lparr>gpio_num = 0, pwm_mode = 0\<rparr> 1) = Some ''44'' \<and>
   sint (atoi ''101'') > 100 \<and> - 4294 \<le> sint (atoi ''101'') \<and> sint (atoi ''101'') \<le> 4294 \<and>
   main [Opt_c ''101''] None (answers ''44'' \<lparr>gpio_num = 0, pwm_mode = 0\<rparr> 1) =
     (Return (- 1), [Open_dev, Read_dev, Report Msg_duty_range, Close_dev])"
proof -
  let ?e = "answers ''44'' \<lparr>gpio_num = 0, pwm_mode = 0\<rparr> 1"
  let ?v = "no_opts\<lparr>duty_cycle := Some ''101''\<rparr>"
  have opts: "getopt_loop [Opt_c ''101''] no_opts = Inr ?v" by simp
  have dev: "open_ok ?e" "read_res ?e = Some ''44''" by (simp_all add: answers_def)
  have range: "sint (atoi ''101'') > 100" "- 4294 \<le> sint (atoi ''101'')"
    "sint (atoi ''101'') \<le> 4294"
    by (simp_all add: atoi_values)
  then have bad:
    "(\<exists>s. gpio_value ?v = Some s \<and> (sint (atoi s) < 2 \<or> sint (atoi s) > 30)) \<or>
     (\<exists>s. pwm_value ?v = Some s \<and> (sint (atoi s) < 0 \<or> sint (atoi s) > 7)) \<or>
     (\<exists>s. duty_cycle ?v = Some s \<and> (sint (atoi s) < 0 \<or> sint (atoi s) > 100) \<and>
          - 4294 \<le> sint (atoi s) \<and> sint (atoi s) \<le> 4294)"
    by simp
  have "main [Opt_c ''101''] None ?e =
          (Return (- 1), [Open_dev, Read_dev, Report Msg_duty_range, Close_dev])"
    using rejected_after_open_and_read [OF opts dev bad, of None]
    by (simp add: main_defs atoi_values duty_c_values set_bytes_values PWM_PERIOD_def)
  with opts dev range show ?thesis by simp
qed


text \<open>
  C4. The claim: a governor start never writes the configuration byte, whatever pin is
  stored. With the stored byte 37 (pin 5, mode 1) and option \<open>-a 500\<close>, main.c goes on
  from the \<open>default\<close> case of the switch to the write, and the byte of the uninitialised
  \<open>config\<close> (here 0) is written to the driver.
\<close>

theorem governor_start_writes_config:
  "Write_dev ''0'' \<in>
     set (snd (main [Opt_a ''500''] None (answers ''37'' \<lparr>gpio_num = 0, pwm_mode = 0\<rparr> 1)))"
  by (simp add: main_defs atoi_values strtoull_values set_bytes_values bytes_values
      snprintf_d_values)

text \<open>
  The other paths of C4 do not write: an invocation with \<open>-c\<close> never does, and the
  block of \<open>-a\<close> does not when the stored pin is one of \<open>PWM_GPIOS\<close>.
\<close>

lemma manual_duty_cycle_no_write: "Write_dev w \<notin> set (snd (manual_duty_cycle s e))"
  by (simp add: manual_duty_cycle_def split: option.splits)

lemma duty_cycle_no_write:
  assumes "duty_cycle v = Some s"
  shows "Write_dev w \<notin> set (snd (after_getopt v arg e))"
proof (cases "open_ok e")
  case False
  then show ?thesis by (simp add: after_getopt_def)
next
  case ok: True
  show ?thesis
  proof (cases "read_res e")
    case None
    with ok show ?thesis by (simp add: after_getopt_def)
  next
    case (Some old_value)
    let ?old = "set_bytes (ucast (atoi old_value))"
    show ?thesis
    proof (cases "configuring_gpio (gpio_value v) ?old (config_indeterminate e)")
      case (Inl m)
      from after_getopt_gpio_Inl [OF ok Some Inl] show ?thesis by simp
    next
      case gpio: (Inr config1)
      show ?thesis
      proof (cases "configuring_pwm (pwm_value v) ?old config1")
        case (Inl m)
        from after_getopt_pwm_Inl [OF ok Some gpio Inl] show ?thesis by simp
      next
        case (Inr config2)
        from after_getopt_duty_cycle [OF ok Some gpio Inr assms]
        show ?thesis by (simp add: manual_duty_cycle_no_write)
      qed
    qed
  qed
qed

lemma pwm_pin_adaptive_no_write:
  assumes "adapt_ms v \<noteq> 0" and "PWM_GPIOS (gpio_num old_config)"
  shows "Write_dev w \<notin> set (snd (adaptive_pwm v old_config config e))"
  using assms by (simp add: adaptive_pwm_def)

text \<open>
  C9. The claim: the descriptor is closed on every way out of an invocation, the
  duty-cycle path included. With option \<open>-c 10\<close> main.c makes the control call and
  returns 0 at line 149; there is no \<open>close\<close> on this path, while every other \<open>return\<close>
  after the open is preceded by one.
\<close>

theorem duty_cycle_path_leaves_open:
  "main [Opt_c ''10''] None (answers ''44'' \<lparr>gpio_num = 0, pwm_mode = 0\<rparr> 1) =
     (Return 0, [Open_dev, Read_dev, Ioctl_wr_pwm 5000000]) \<and>
   Close_dev \<notin>
     set (snd (main [Opt_c ''10''] None (answers ''44'' \<lparr>gpio_num = 0, pwm_mode = 0\<rparr> 1)))"
  by (simp add: main_defs atoi_values duty_c_values set_bytes_values PWM_PERIOD_def)

section \<open>The governor's ceiling and duty cycle\<close>

lemma fst_adaptive_loop_Cons:
  "fst (adaptive_loop tmo m (t # ts)) =
     (case tz_res t of
        Lseek_failed \<Rightarrow> Exit (- 1)
      | Read_failed \<Rightarrow> Exit (- 1)
      | Tz_buf buf \<Rightarrow>
          (case snd (adaptive_tick m buf) of
             None \<Rightarrow> Division_by_zero
           | Some d \<Rightarrow> fst (adaptive_loop tmo (fst (adaptive_tick m buf)) ts)))"
  by (simp split: tz_result.splits prod.splits option.splits)

lemma fst_adaptive_tick_ge: "m \<le> fst (adaptive_tick m buf)"
  by (simp add: adaptive_tick_def Let_def less_imp_le)

lemma adaptive_loop_mono:
  "fst (adaptive_loop tmo m ts) = Running m' \<Longrightarrow> m \<le> m'"
proof (induction ts arbitrary: m)
  case Nil
  then show ?case by simp
next
  case (Cons t ts)
  from Cons.prems obtain buf where
    run: "fst (adaptive_loop tmo (fst (adaptive_tick m buf)) ts) = Running m'"
    by (auto simp: fst_adaptive_loop_Cons simp del: adaptive_loop.simps
        split: tz_result.splits option.splits)
  have "m \<le> fst (adaptive_tick m buf)" by (rule fst_adaptive_tick_ge)
  also from run have "\<dots> \<le> m'" by (rule Cons.IH)
  finally show ?case .
qed

lemma adaptive_loop_append:
  "fst (adaptive_loop tmo m ts) = Running m' \<Longrightarrow>
   fst (adaptive_loop tmo m (ts @ us)) = fst (adaptive_loop tmo m' us)"
proof (induction ts arbitrary: m)
  case Nil
  then show ?case by simp
next
  case (Cons t ts)
  from Cons.prems show ?case
    by (auto simp: fst_adaptive_loop_Cons Cons.IH simp del: adaptive_loop.simps
        split: tz_result.splits option.splits)
qed

lemma fst_adaptive: "fst (adaptive True tmo ts) = fst (adaptive_loop tmo 0 ts)"
  by (simp add: adaptive_def split: prod.splits)

lemma adaptive_loop_single:
  assumes "tz_res t = Tz_buf buf"
    and "adaptive_tick m buf = (c, Some d)"
  shows "adaptive_loop tmo m [t] =
           (Running c,
            [Lseek_tz, Read_tz, Ioctl_wr_pwm d] @
            (if tick_ioctl_ok t then [] else [Report Msg_ioctl_failed]) @
            [Usleep (ucast (tmo * 1000))])"
  using assms by simp

text \<open>
  C6. The ceiling \<open>max_temp\<close> starts at 0 and never falls: when a run of the governor is
  still in its loop after the ticks \<open>ts\<close> with ceiling \<open>c\<close>, and still in its loop after
  the further ticks \<open>us\<close> with ceiling \<open>c'\<close>, then \<open>c \<le> c'\<close>. With \<open>us\<close> a single tick this is
  the ceiling of tick \<open>i\<close> against that of tick \<open>i - 1\<close>.
\<close>

theorem ceiling_monotone:
  "fst (adaptive True tmo []) = Running 0 \<and>
   (fst (adaptive True tmo ts) = Running c \<longrightarrow>
    fst (adaptive True tmo (ts @ us)) = Running c' \<longrightarrow> c \<le> c')"
proof -
  have "c \<le> c'"
    if a: "fst (adaptive_loop tmo 0 ts) = Running c"
    and b: "fst (adaptive_loop tmo 0 (ts @ us)) = Running c'"
  proof -
    from a b have "fst (adaptive_loop tmo c us) = Running c'"
      by (simp add: adaptive_loop_append)
    then show ?thesis by (rule adaptive_loop_mono)
  qed
  then show ?thesis
    by (simp add: fst_adaptive)
qed

theorem ceiling_monotone_witness:
  "fst (adaptive True 1000 [reading ''45000'']) = Running 45000 \<and>
   fst (adaptive True 1000 ([reading ''45000''] @ [reading ''47000''])) = Running 47000 \<and>
   (45000 :: 64 word) \<le> 47000"
  using ceiling_monotone [of 1000 "[reading ''45000'']" 45000 "[reading ''47000'']" 47000]
  by (simp add: fst_adaptive reading_def adaptive_tick_values)

lemma uint_scast_nonneg:
  fixes w :: "32 word"
  assumes "0 \<le> sint w"
  shows "uint (scast w :: 64 word) = sint w"
proof -
  have "sint w < 2 ^ 31" using sint_lt [of w] by simp
  then have "sint w < 2 ^ LENGTH(64)" by simp
  with assms show ?thesis
    by (intro word_of_int_inverse) simp_all
qed

lemma unat_curr_temp:
  assumes "0 \<le> sint (atoi buf)"
  shows "unat (curr_temp buf) = nat (sint (atoi buf))" and "unat (curr_temp buf) < 2 ^ 31"
proof -
  show "unat (curr_temp buf) = nat (sint (atoi buf))"
    using uint_scast_nonneg [OF assms] by (simp only: curr_temp_def unat_eq_nat_uint)
  then show "unat (curr_temp buf) < 2 ^ 31"
    using sint_lt [of "atoi buf"] assms by simp
qed

lemma unat_product:
  assumes "unat (x :: 64 word) < 2 ^ 31"
  shows "unat (x * word_of_int PWM_PERIOD) = unat x * nat PWM_PERIOD"
  using assms by (simp add: PWM_PERIOD_def unat_word_ariths)

lemma scast_eq_0: "(scast (w :: 32 word) :: 64 word) = 0 \<longleftrightarrow> w = 0"
proof
  assume a: "(scast w :: 64 word) = 0"
  have "w = scast (scast w :: 64 word)"
    by (rule bit_word_eqI) (auto simp: bit_simps)
  with a show "w = 0" by simp
qed simp

text \<open>
  C5, as the spec states it: at every tick the duty written is \<open>t * PERIOD / ceiling\<close>,
  and it is \<open>PERIOD\<close> when the sample equals the ceiling. Two first ticks where it is
  not so: the sample \<open>0\<close> equals the ceiling 0 and no duty is written, the quotient having
  no value; the sample \<open>-1000\<close> becomes the \<open>uint64_t\<close> 18446744073709550616, which is the
  new ceiling, and the duty written is 0.
\<close>

theorem duty_at_tick_counterexample:
  "adaptive_loop 1000 0 [reading ''0''] = (Division_by_zero, [Lseek_tz, Read_tz]) \<and>
   curr_temp ''-1000'' = 18446744073709550616 \<and>
   adaptive_loop 1000 0 [reading ''-1000''] =
     (Running 18446744073709550616,
      [Lseek_tz, Read_tz, Ioctl_wr_pwm 0, Usleep 1000000])"
  by (simp add: reading_def adaptive_tick_values curr_temp_values)

text \<open>
  C5, amended. At a tick that starts with the ceiling \<open>m\<close> and reads a sample that
  \<open>atoi\<close> gives as a non-negative \<open>int\<close>, with \<open>c\<close> the ceiling after the update of lines
  246 to 249 and \<open>c\<close> not 0: the loop goes on with ceiling \<open>c\<close>, and the duty it writes by
  the control call is the sample times \<open>PERIOD\<close> divided by \<open>c\<close>, computed without
  wrap-around; when the sample equals \<open>c\<close> it is \<open>PERIOD\<close>.
\<close>

theorem duty_at_tick:
  assumes buf: "tz_res t = Tz_buf buf"
    and nonneg: "0 \<le> sint (atoi buf)"
    and c: "c = max m (curr_temp buf)"
    and nz: "c \<noteq> 0"
  shows "\<exists>d. adaptive_loop tmo m [t] =
           (Running c,
            [Lseek_tz, Read_tz, Ioctl_wr_pwm d] @
            (if tick_ioctl_ok t then [] else [Report Msg_ioctl_failed]) @
            [Usleep (ucast (tmo * 1000))]) \<and>
         unat d = unat (curr_temp buf) * nat PWM_PERIOD div unat c \<and>
         (curr_temp buf = c \<longrightarrow> unat d = nat PWM_PERIOD)"
proof -
  define d where "d = (curr_temp buf * word_of_int PWM_PERIOD) div c"
  have tick: "adaptive_tick m buf = (c, Some d)"
    using nz by (auto simp: adaptive_tick_def Let_def c d_def max_def not_less)
  have val: "unat d = unat (curr_temp buf) * nat PWM_PERIOD div unat c"
    by (simp add: d_def unat_div unat_product [OF unat_curr_temp(2) [OF nonneg]])
  have "unat d = nat PWM_PERIOD" if "curr_temp buf = c"
  proof -
    from nz have "unat c \<noteq> 0" by (simp add: unat_eq_0)
    with val that show ?thesis by simp
  qed
  with adaptive_loop_single [OF buf tick] val show ?thesis by blast
qed

theorem duty_at_tick_witness:
  "tz_res (reading ''45000'') = Tz_buf ''45000'' \<and> 0 \<le> sint (atoi ''45000'') \<and>
   (45000 :: 64 word) = max 45000 (curr_temp ''45000'') \<and> (45000 :: 64 word) \<noteq> 0 \<and>
   curr_temp ''45000'' = 45000 \<and>
   adaptive_loop 1000 45000 [reading ''45000''] =
     (Running 45000, [Lseek_tz, Read_tz, Ioctl_wr_pwm 50000000, Usleep 1000000])"
proof -
  have buf: "tz_res (reading ''45000'') = Tz_buf ''45000''" by (simp add: reading_def)
  have nonneg: "0 \<le> sint (atoi ''45000'')" by (simp add: atoi_values)
  have c: "(45000 :: 64 word) = max 45000 (curr_temp ''45000'')"
    by (simp add: curr_temp_values)
  have nz: "(45000 :: 64 word) \<noteq> 0" by simp
  from duty_at_tick [OF buf nonneg c nz, of 1000] buf nonneg c nz
  show ?thesis
    by (simp add: reading_def adaptive_tick_values curr_temp_values)
qed

text \<open>
  After a tick that wrote a duty the ceiling is not 0, and it stays so: only the first
  tick of a run can divide by zero.
\<close>

lemma ceiling_nonzero_after_tick:
  assumes "fst (adaptive_loop tmo m (t # ts)) = Running c"
  shows "c \<noteq> 0"
proof -
  from assms obtain buf d where tick: "snd (adaptive_tick m buf) = Some d"
    and run: "fst (adaptive_loop tmo (fst (adaptive_tick m buf)) ts) = Running c"
    by (auto simp: fst_adaptive_loop_Cons simp del: adaptive_loop.simps
        split: tz_result.splits option.splits)
  from tick have "fst (adaptive_tick m buf) \<noteq> 0"
    by (auto simp: adaptive_tick_def Let_def split: if_splits)
  moreover from run have "fst (adaptive_tick m buf) \<le> c"
    by (rule adaptive_loop_mono)
  ultimately show ?thesis by auto
qed

text \<open>
  With a ceiling other than 0 the loop runs on over every tick that reads a sample, and
  its ceiling is the largest of the old ceiling and the samples read.
\<close>

lemma adaptive_tick_nonzero:
  assumes "m \<noteq> 0 \<or> atoi b \<noteq> 0"
  shows "\<exists>d. adaptive_tick m b = (max m (curr_temp b), Some d)"
  using assms
  by (auto simp: adaptive_tick_def Let_def max_def curr_temp_def scast_eq_0 not_less
      word_greater_zero_iff)

lemma adaptive_tick_zero:
  assumes "atoi b = 0"
  shows "adaptive_tick 0 b = (0, None)"
  using assms by (simp add: adaptive_tick_def Let_def curr_temp_def)

lemma adaptive_loop_running:
  assumes "map tz_res ts = map Tz_buf bs" and "m \<noteq> 0"
  shows "fst (adaptive_loop tmo m ts) = Running (Max (insert m (curr_temp ` set bs)))"
  using assms
proof (induction bs arbitrary: ts m)
  case Nil
  then show ?case by simp
next
  case (Cons b bs)
  from Cons.prems(1) obtain t ts' where ts: "ts = t # ts'"
    and t: "tz_res t = Tz_buf b" and rest: "map tz_res ts' = map Tz_buf bs"
    by (cases ts) auto
  from Cons.prems(2) obtain d where tick: "adaptive_tick m b = (max m (curr_temp b), Some d)"
    using adaptive_tick_nonzero [of m b] by blast
  from Cons.prems(2) have nz: "max m (curr_temp b) \<noteq> 0"
    by (auto simp: max_def)
  have "fst (adaptive_loop tmo m ts) = fst (adaptive_loop tmo (max m (curr_temp b)) ts')"
    by (simp add: ts t tick fst_adaptive_loop_Cons del: adaptive_loop.simps(2))
  also have "\<dots> = Running (Max (insert (max m (curr_temp b)) (curr_temp ` set bs)))"
    using rest nz by (rule Cons.IH)
  also have "Max (insert (max m (curr_temp b)) (curr_temp ` set bs)) =
      Max (insert m (curr_temp ` set (b # bs)))"
  proof (cases "bs = []")
    case True
    then show ?thesis by (simp add: max.commute)
  next
    case False
    then show ?thesis by (simp add: max.assoc max.left_commute max.commute)
  qed
  finally show ?case .
qed

text \<open>
  C10, as stated: the division of line 252 is defined only if a sample seen so far is
  positive. A negative sample is none, yet after it the division is defined: the sample
  \<open>-1000\<close> is the \<open>uint64_t\<close> 18446744073709550616, which becomes the ceiling.
\<close>

theorem division_by_zero_counterexample:
  "sint (atoi ''-1000'') < 0 \<and>
   adaptive True 1000 [reading ''-1000''] =
     (Running 18446744073709550616,
      [Setsid, Open_tz, Rename_process, Lseek_tz, Read_tz, Ioctl_wr_pwm 0, Usleep 1000000])"
  by (simp add: adaptive_def reading_def adaptive_tick_values curr_temp_values atoi_values)

text \<open>
  C10, amended. Line 252 divides by \<open>max_temp\<close> with no test for 0. For a run of the
  governor whose reads succeed and whose samples \<open>b # bs\<close> are all non-negative: when
  the first sample parses as 0 (as a buffer with no digits does, and as it is when all
  samples so far parse as 0) the ceiling remains 0 and the first tick divides by zero;
  when the first sample is positive the run is still in its loop after all the ticks,
  its ceiling is the largest sample so far and is not 0; and a run that has not divided
  by zero has seen a positive sample.
\<close>

theorem division_by_zero:
  assumes reads: "map tz_res ts = map Tz_buf (b # bs)"
    and nonneg: "\<forall>x \<in> set (b # bs). 0 \<le> sint (atoi x)"
  shows "(atoi b = 0 \<longrightarrow>
            adaptive_tick 0 b = (0, None) \<and> fst (adaptive True tmo ts) = Division_by_zero) \<and>
         (0 < sint (atoi b) \<longrightarrow>
            fst (adaptive True tmo ts) = Running (Max (curr_temp ` set (b # bs))) \<and>
            Max (curr_temp ` set (b # bs)) \<noteq> 0) \<and>
         (fst (adaptive True tmo ts) \<noteq> Division_by_zero \<longrightarrow>
            (\<exists>x \<in> set (b # bs). 0 < sint (atoi x)))"
proof -
  from reads obtain t ts' where ts: "ts = t # ts'"
    and t: "tz_res t = Tz_buf b" and rest: "map tz_res ts' = map Tz_buf bs"
    by (cases ts) auto
  have zero: "fst (adaptive True tmo ts) = Division_by_zero" if "atoi b = 0"
    using that
    by (simp add: fst_adaptive ts t adaptive_tick_zero fst_adaptive_loop_Cons
        del: adaptive_loop.simps(2))
  have pos: "fst (adaptive True tmo ts) = Running (Max (curr_temp ` set (b # bs))) \<and>
      Max (curr_temp ` set (b # bs)) \<noteq> 0" if "0 < sint (atoi b)"
  proof -
    from that have b: "atoi b \<noteq> 0" by auto
    then have nz: "curr_temp b \<noteq> 0" by (simp add: curr_temp_def scast_eq_0)
    from b obtain d where tick: "adaptive_tick 0 b = (curr_temp b, Some d)"
      using adaptive_tick_nonzero [of 0 b] by auto
    have "fst (adaptive True tmo ts) = fst (adaptive_loop tmo (curr_temp b) ts')"
      by (simp add: fst_adaptive ts t tick fst_adaptive_loop_Cons del: adaptive_loop.simps(2))
    also have "\<dots> = Running (Max (insert (curr_temp b) (curr_temp ` set bs)))"
      using rest nz by (rule adaptive_loop_running)
    finally have run: "fst (adaptive True tmo ts) = Running (Max (curr_temp ` set (b # bs)))"
      by simp
    have le: "curr_temp b \<le> Max (curr_temp ` set (b # bs))"
      by (intro Max_ge) simp_all
    have "Max (curr_temp ` set (b # bs)) \<noteq> 0"
    proof
      assume "Max (curr_temp ` set (b # bs)) = 0"
      with le have "curr_temp b \<le> 0" by (simp only:)
      with nz show False by simp
    qed
    with run show ?thesis by simp
  qed
  have "\<exists>x \<in> set (b # bs). 0 < sint (atoi x)"
    if "fst (adaptive True tmo ts) \<noteq> Division_by_zero"
  proof -
    from that zero have "atoi b \<noteq> 0" by blast
    then have "sint (atoi b) \<noteq> 0" by (simp add: signed_eq_0_iff)
    moreover from nonneg have "0 \<le> sint (atoi b)" by simp
    ultimately have "0 < sint (atoi b)" by simp
    then show ?thesis by auto
  qed
  with zero pos show ?thesis by (simp add: adaptive_tick_zero)
qed

theorem division_by_zero_witness:
  "map tz_res [reading ''n/a'', reading ''0''] = map Tz_buf [''n/a'', ''0''] \<and>
   0 \<le> sint (atoi ''n/a'') \<and> 0 \<le> sint (atoi ''0'') \<and> atoi ''n/a'' = 0 \<and>
   adaptive_tick 0 ''n/a'' = (0, None) \<and>
   fst (adaptive True 1000 [reading ''n/a'', reading ''0'']) = Division_by_zero \<and>
   map tz_res [reading ''45000'', reading ''0'', reading ''47000''] =
     map Tz_buf [''45000'', ''0'', ''47000''] \<and>
   0 < sint (atoi ''45000'') \<and> 0 \<le> sint (atoi ''47000'') \<and>
   fst (adaptive True 1000 [reading ''45000'', reading ''0'', reading ''47000'']) =
     Running 47000"
proof -
  have r1: "map tz_res [reading ''n/a'', reading ''0''] = map Tz_buf [''n/a'', ''0'']"
    by (simp add: reading_def)
  have n1: "\<forall>x \<in> set [''n/a'', ''0'']. 0 \<le> sint (atoi x)"
    by (simp add: atoi_values)
  have r2: "map tz_res [reading ''45000'', reading ''0'', reading ''47000''] =
      map Tz_buf [''45000'', ''0'', ''47000'']"
    by (simp add: reading_def)
  have n2: "\<forall>x \<in> set [''45000'', ''0'', ''47000'']. 0 \<le> sint (atoi x)"
    by (simp add: atoi_values)
  from division_by_zero [OF r1 n1, of 1000] division_by_zero [OF r2 n2, of 1000] r1 r2
  show ?thesis
    by (simp add: atoi_values curr_temp_values)
qed


end
